theory Spec2Isabelle
  imports Main "HOL-Library.Sublist"
begin

section \<open>The MCP client: tool catalog, name resolution, dispatch and the query loop\<close>

text \<open>
  A shallow embedding of class \<open>MCPClient\<close> (the multi-server client, the file with
  \<open>findToolByName\<close>, \<open>connectToMultipleServers\<close>, \<open>callTool\<close>, \<open>processQuery\<close> and
  \<open>chatLoop\<close>). Strings are \<open>string\<close> (lists of 8-bit characters; tool names are
  ASCII identifiers). Everything outside the process (the language model, the tool
  providers) is a function over an explicit world \<open>'w\<close> that is threaded through every
  call, so that two calls with the same arguments may answer differently. Console
  output is not modelled.
\<close>

subsection \<open>JavaScript string operations\<close>

text \<open>\<open>String.prototype.toLowerCase\<close>, on ASCII letters.\<close>

definition toLowerChar :: "char \<Rightarrow> char" where
  "toLowerChar c =
     (case map_of (zip ''ABCDEFGHIJKLMNOPQRSTUVWXYZ'' ''abcdefghijklmnopqrstuvwxyz'') c of
        Some d \<Rightarrow> d
      | None \<Rightarrow> c)"

definition toLowerCase :: "string \<Rightarrow> string" where
  "toLowerCase s = map toLowerChar s"

text \<open>\<open>s.includes(t)\<close>: \<open>t\<close> occurs in \<open>s\<close> as a contiguous run of characters.\<close>

fun str_includes :: "string \<Rightarrow> string \<Rightarrow> bool" where
  "str_includes [] t = (t = [])"
| "str_includes (c # s) t = (prefix t (c # s) \<or> str_includes s t)"

text \<open>
  \<open>s.split(c)\<close> for a one-character separator: the pieces between the occurrences of
  \<open>c\<close>; the result is never empty (\<open>''''.split('_')\<close> is \<open>['''']\<close>).
\<close>

fun str_split :: "char \<Rightarrow> string \<Rightarrow> string list" where
  "str_split c [] = [[]]"
| "str_split c (x # xs) =
     (if x = c then [] # str_split c xs
      else (case str_split c xs of
              [] \<Rightarrow> [[x]]
            | p # ps \<Rightarrow> (x # p) # ps))"

text \<open>\<open>s.indexOf(c)\<close>: the index of the first occurrence, or \<open>-1\<close>.\<close>

fun indexOf :: "string \<Rightarrow> char \<Rightarrow> int" where
  "indexOf [] c = - 1"
| "indexOf (x # xs) c =
     (if x = c then 0
      else (let i = indexOf xs c in if i = - 1 then - 1 else i + 1))"

text \<open>
  \<open>s.substring(a, b)\<close>: both indices are clamped to \<open>[0, length]\<close> and swapped when
  \<open>a > b\<close>; \<open>s.substring(a)\<close> runs to the end.
\<close>

definition substring :: "string \<Rightarrow> int \<Rightarrow> int \<Rightarrow> string" where
  "substring s a b =
     (let n = int (length s);
          a' = max 0 (min a n);
          b' = max 0 (min b n);
          lo = min a' b';
          hi = max a' b'
      in take (nat (hi - lo)) (drop (nat lo) s))"

definition substringFrom :: "string \<Rightarrow> int \<Rightarrow> string" where
  "substringFrom s a = substring s a (int (length s))"

subsection \<open>Data model\<close>

text \<open>A JSON value (tool arguments, schemas, structured results), by its \<open>JSON.stringify\<close> text.\<close>

type_synonym json = string

text \<open>\<open>Tool\<close> of the Anthropic SDK: \<open>{name, description, input_schema}\<close>.\<close>

record tool =
  name :: string
  description :: string
  input_schema :: json

text \<open>A thrown \<open>Error\<close>, by its \<open>message\<close>.\<close>

datatype error = Error (message: string)

text \<open>What \<open>client.callTool\<close> resolves to; \<open>content\<close> is a string or a structured value.\<close>

datatype result_content = StringContent string | StructuredContent json

record call_result =
  result_content :: result_content
  isError :: bool

text \<open>
  A connected \<open>Client\<close> of the MCP SDK: the tools its \<open>listTools()\<close> answered with at
  connection time, and its \<open>callTool({name, arguments})\<close>, which may throw.
\<close>

record 'w client =
  client_listTools :: "tool list"
  client_callTool :: "string \<Rightarrow> json \<Rightarrow> 'w \<Rightarrow> (error + call_result) \<times> 'w"

datatype transport = SSEClientTransport string | StdioClientTransport string "string list"

text \<open>A content block of a model response; blocks of other types are skipped by the loop.\<close>

datatype content_block =
    Text string
  | ToolUse (block_id: string) (block_name: string) (block_input: json)
  | OtherBlock

text \<open>
  \<open>MessageParam\<close>: a role and either a string or a one-element array holding a
  \<open>tool_use\<close> or a \<open>tool_result\<close> block (\<open>is_error\<close> absent is \<open>False\<close>).
\<close>

datatype role = User | Assistant

datatype message_content =
    Str string
  | ToolUseParam string string json
  | ToolResultParam (tool_use_id: string) (result_text: string) (is_error: bool)

record message =
  role :: role
  content :: message_content

datatype mode = Single | Multi

text \<open>The fields of \<open>MCPClient\<close>; \<open>anthropic\<close> stands for \<open>anthropic.messages.create\<close>.\<close>

record 'w MCPClient =
  mcpClients :: "string \<rightharpoonup> 'w client"
  anthropic :: "message list \<Rightarrow> tool list option \<Rightarrow> 'w \<Rightarrow> (error + content_block list) \<times> 'w"
  transports :: "string \<rightharpoonup> transport"
  allTools :: "tool list"
  conversationHistory :: "message list"
  mode :: mode

text \<open>The constructor and the field initialisers of the class.\<close>

definition newMCPClient ::
  "(message list \<Rightarrow> tool list option \<Rightarrow> 'w \<Rightarrow> (error + content_block list) \<times> 'w)
     \<Rightarrow> 'w MCPClient" where
  "newMCPClient model =
     \<lparr>mcpClients = Map.empty, anthropic = model, transports = Map.empty,
      allTools = [], conversationHistory = [], mode = Single\<rparr>"

subsection \<open>\<open>findToolByName\<close>\<close>

text \<open>The three predicates handed to \<open>Array.prototype.find\<close>, in the order they are tried.\<close>

definition exactPred :: "string \<Rightarrow> tool \<Rightarrow> bool" where
  "exactPred baseName t = (name t = baseName)"

definition suffixPred :: "string \<Rightarrow> tool \<Rightarrow> bool" where
  "suffixPred baseName t =
     (let parts = str_split CHR ''_'' (name t) in last parts = baseName)"

definition flexiblePred :: "string \<Rightarrow> tool \<Rightarrow> bool" where
  "flexiblePred baseName t =
     (str_includes (toLowerCase (name t)) (toLowerCase baseName) \<or>
      str_includes (toLowerCase baseName) (toLowerCase (last (str_split CHR ''_'' (name t)))))"

definition findToolByName :: "'w MCPClient \<Rightarrow> string \<Rightarrow> string option" where
  "findToolByName this baseName =
     (case find (exactPred baseName) (allTools this) of
        Some exactMatch \<Rightarrow> Some (name exactMatch)
      | None \<Rightarrow>
          (case find (suffixPred baseName) (allTools this) of
             Some suffixMatch \<Rightarrow> Some (name suffixMatch)
           | None \<Rightarrow>
               (case find (flexiblePred baseName) (allTools this) of
                  Some flexibleMatch \<Rightarrow> Some (name flexibleMatch)
                | None \<Rightarrow> None)))"

subsection \<open>Connecting providers\<close>

text \<open>
  Choosing the transport, \<open>client.connect\<close> and \<open>client.listTools\<close> are input/output;
  their joint outcome is the argument \<open>conn\<close>: the error one of them threw, or the
  transport and the connected client. Both methods set \<open>mode\<close> first, so a failed
  connection changes \<open>mode\<close> and nothing else; the error is returned beside the state.
\<close>

definition connectToServer ::
  "(error + transport \<times> 'w client) \<Rightarrow> 'w MCPClient \<Rightarrow> error option \<times> 'w MCPClient" where
  "connectToServer conn this0 =
     (let this = this0\<lparr>mode := Single\<rparr> in
      case conn of
        Inl e \<Rightarrow> (Some e, this)
      | Inr (tr, cl) \<Rightarrow>
          (None,
           this\<lparr>allTools :=
                   map (\<lambda>t. \<lparr>name = name t, description = description t,
                              input_schema = input_schema t\<rparr>) (client_listTools cl),
                 mcpClients := (mcpClients this)(''default'' \<mapsto> cl),
                 transports := (transports this)(''default'' \<mapsto> tr)\<rparr>))"

definition connectToMultipleServers ::
  "string \<Rightarrow> (error + transport \<times> 'w client) \<Rightarrow> 'w MCPClient \<Rightarrow> error option \<times> 'w MCPClient" where
  "connectToMultipleServers serverType conn this0 =
     (let this = this0\<lparr>mode := Multi\<rparr> in
      case conn of
        Inl e \<Rightarrow> (Some e, this)
      | Inr (tr, cl) \<Rightarrow>
          (let tools = map (\<lambda>t. \<lparr>name = name t, description = description t,
                                   input_schema = input_schema t\<rparr>) (client_listTools cl);
               prefixedTools = map (\<lambda>t. t\<lparr>name := serverType @ ''_'' @ name t\<rparr>) tools
           in (None,
               this\<lparr>allTools := allTools this @ prefixedTools,
                     mcpClients := (mcpClients this)(serverType \<mapsto> cl),
                     transports := (transports this)(serverType \<mapsto> tr)\<rparr>)))"

text \<open>
  A run of \<open>await connectToMultipleServers(...)\<close> calls, one after the other as in
  \<open>main\<close>; the first error that is thrown ends the run.
\<close>

fun connectAll ::
  "(string \<times> (error + transport \<times> 'w client)) list \<Rightarrow> 'w MCPClient
     \<Rightarrow> error option \<times> 'w MCPClient" where
  "connectAll [] this = (None, this)"
| "connectAll ((serverType, conn) # rest) this =
     (case connectToMultipleServers serverType conn this of
        (Some e, this') \<Rightarrow> (Some e, this')
      | (None, this') \<Rightarrow> connectAll rest this')"

subsection \<open>\<open>callTool\<close>\<close>

definition callTool ::
  "'w MCPClient \<Rightarrow> string \<Rightarrow> json \<Rightarrow> 'w \<Rightarrow> (error + call_result) \<times> 'w" where
  "callTool this toolName args w =
     (if mode this = Single then
        (case mcpClients this ''default'' of
           None \<Rightarrow> (Inl (Error ''No client connected''), w)
         | Some cl \<Rightarrow> client_callTool cl toolName args w)
      else
        (let firstUnderscoreIndex = indexOf toolName CHR ''_'' in
         if firstUnderscoreIndex = - 1 then
           (Inl (Error (''Invalid tool name format: '' @ toolName)), w)
         else
           (let serverType = substring toolName 0 firstUnderscoreIndex;
                actualToolName = substringFrom toolName (firstUnderscoreIndex + 1)
            in case mcpClients this serverType of
                 None \<Rightarrow> (Inl (Error (''No client found for server type: '' @ serverType)), w)
               | Some cl \<Rightarrow> client_callTool cl actualToolName args w)))"

subsection \<open>\<open>processQuery\<close>\<close>

text \<open>\<open>this.conversationHistory.push(m)\<close>.\<close>

definition push :: "message \<Rightarrow> 'w MCPClient \<Rightarrow> 'w MCPClient" where
  "push m this = this\<lparr>conversationHistory := conversationHistory this @ [m]\<rparr>"

text \<open>
  \<open>typeof result.content === 'string' ? result.content : JSON.stringify(result.content)\<close>.
\<close>

definition toolResultContent :: "call_result \<Rightarrow> string" where
  "toolResultContent result =
     (case result_content result of
        StringContent s \<Rightarrow> s
      | StructuredContent j \<Rightarrow> j)"

text \<open>
  The branch under \<open>if (!fullToolName)\<close>: a note in the response buffer and an error
  \<open>tool_result\<close> turn, then \<open>continue\<close>.
\<close>

definition toolNotFound ::
  "string \<Rightarrow> string \<Rightarrow> string \<times> bool \<times> 'w MCPClient \<times> 'w
     \<Rightarrow> string \<times> bool \<times> 'w MCPClient \<times> 'w" where
  "toolNotFound content_id toolName acc =
     (case acc of (finalResponse, toolUseDetected, this, w) \<Rightarrow>
        (finalResponse @ ''[Error: Tool '' @ toolName @ '' not found]'' @ [CHR 0x0A],
         True,
         push \<lparr>role = User,
               content = ToolResultParam content_id
                           (''Error: Tool '' @ toolName @ '' not found'') True\<rparr> this,
         w))"

text \<open>
  The body of \<open>for (const content of response.content)\<close>, on the loop's variables
  \<open>finalResponse\<close> and \<open>toolUseDetected\<close>, the client and the world. \<open>!fullToolName\<close>
  holds for \<open>undefined\<close> and for the empty string.
\<close>

fun processContent ::
  "content_block \<Rightarrow> string \<times> bool \<times> 'w MCPClient \<times> 'w
     \<Rightarrow> string \<times> bool \<times> 'w MCPClient \<times> 'w" where
  "processContent (Text t) (finalResponse, toolUseDetected, this, w) =
     (finalResponse @ t @ [CHR 0x0A],
      toolUseDetected,
      push \<lparr>role = Assistant, content = Str t\<rparr> this,
      w)"
| "processContent (ToolUse content_id toolName toolArgs) (finalResponse, toolUseDetected, this, w) =
     (case findToolByName this toolName of
        None \<Rightarrow> toolNotFound content_id toolName (finalResponse, True, this, w)
      | Some fullToolName \<Rightarrow>
          if fullToolName = [] then
            toolNotFound content_id toolName (finalResponse, True, this, w)
          else
            (let this1 = push \<lparr>role = Assistant,
                               content = ToolUseParam content_id toolName toolArgs\<rparr> this
             in case callTool this1 fullToolName toolArgs w of
                  (Inr result, w') \<Rightarrow>
                    (finalResponse @ ''[Used tool: '' @ fullToolName @ '']'' @ [CHR 0x0A],
                     True,
                     push \<lparr>role = User,
                           content = ToolResultParam content_id (toolResultContent result) False\<rparr>
                       this1,
                     w')
                | (Inl e, w') \<Rightarrow>
                    (finalResponse @ ''[Tool error: '' @ message e @ '']'' @ [CHR 0x0A],
                     True,
                     push \<lparr>role = User,
                           content = ToolResultParam content_id (''Error: '' @ message e) True\<rparr>
                       this1,
                     w')))"
| "processContent OtherBlock acc = acc"

definition maxIterations :: nat where
  "maxIterations = 3"

text \<open>\<open>tools: this.allTools.length > 0 ? this.allTools : undefined\<close>.\<close>

abbreviation toolsParam :: "'w MCPClient \<Rightarrow> tool list option" where
  "toolsParam this \<equiv> (if length (allTools this) > 0 then Some (allTools this) else None)"

text \<open>
  The \<open>while (iteration < maxIterations)\<close> loop. It returns the response buffer, or the
  error the model call threw, together with the final value of \<open>iteration\<close> (the number
  of rounds begun), the client and the world.
\<close>

function queryLoop ::
  "'w MCPClient \<Rightarrow> 'w \<Rightarrow> string \<Rightarrow> nat \<Rightarrow> (error + string) \<times> nat \<times> 'w MCPClient \<times> 'w" where
  "queryLoop this w finalResponse iteration =
     (if iteration < maxIterations then
        (case anthropic this (conversationHistory this) (toolsParam this) w of
           (Inl e, w1) \<Rightarrow> (Inl e, iteration + 1, this, w1)
         | (Inr response, w1) \<Rightarrow>
             (case fold processContent response (finalResponse, False, this, w1) of
                (finalResponse', toolUseDetected, this', w') \<Rightarrow>
                  if \<not> toolUseDetected then (Inr finalResponse', iteration + 1, this', w')
                  else queryLoop this' w'
                         (if iteration + 1 = maxIterations
                          then finalResponse' @ ''Maximum tool iterations reached.''
                          else finalResponse')
                         (iteration + 1)))
      else (Inr finalResponse, iteration, this, w))"
  by pat_completeness auto
termination
  by (relation "measure (\<lambda>(this, w, finalResponse, iteration). maxIterations - iteration)") auto

definition processQuery ::
  "string \<Rightarrow> 'w MCPClient \<Rightarrow> 'w \<Rightarrow> string \<times> 'w MCPClient \<times> 'w" where
  "processQuery query this w =
     (case queryLoop (push \<lparr>role = User, content = Str query\<rparr> this) w [] 0 of
        (Inr finalResponse, iteration, this', w') \<Rightarrow> (finalResponse, this', w')
      | (Inl e, iteration, this', w') \<Rightarrow>
          (''Sorry, I encountered an error: '' @ message e, this', w'))"

subsection \<open>\<open>chatLoop\<close>\<close>

text \<open>
  One pass of the \<open>while (true)\<close> body on the line read: whether the loop goes on, the
  client and the world. \<open>tools\<close>, \<open>mode\<close>, \<open>history\<close> and \<open>history_full\<close> only print.
\<close>

definition chatLoopStep :: "string \<Rightarrow> 'w MCPClient \<Rightarrow> 'w \<Rightarrow> bool \<times> 'w MCPClient \<times> 'w" where
  "chatLoopStep line this w =
     (if toLowerCase line = ''quit'' then (False, this, w)
      else if toLowerCase line = ''clear'' then (True, this\<lparr>conversationHistory := []\<rparr>, w)
      else if toLowerCase line = ''tools'' then (True, this, w)
      else if toLowerCase line = ''mode'' then (True, this, w)
      else if toLowerCase line = ''history'' then (True, this, w)
      else if toLowerCase line = ''history_full'' then (True, this, w)
      else (case processQuery line this w of (response, this', w') \<Rightarrow> (True, this', w')))"

fun chatLoop :: "string list \<Rightarrow> 'w MCPClient \<Rightarrow> 'w \<Rightarrow> 'w MCPClient \<times> 'w" where
  "chatLoop [] this w = (this, w)"
| "chatLoop (line # rest) this w =
     (case chatLoopStep line this w of
        (False, this', w') \<Rightarrow> (this', w')
      | (True, this', w') \<Rightarrow> chatLoop rest this' w')"

subsection \<open>Notions of the specification\<close>

text \<open>
  The final segment of an effective name: what follows its last separator (the whole
  name when it has none).
\<close>

definition final_segment :: "string \<Rightarrow> string" where
  "final_segment s = rev (takeWhile (\<lambda>x. x \<noteq> CHR ''_'') (rev s))"

text \<open>
  The flexible match as the specification words it: the requested name is a
  case-insensitive substring of the final segment, or the final segment of the
  requested name.
\<close>

definition flexible_spec :: "string \<Rightarrow> tool \<Rightarrow> bool" where
  "flexible_spec requested t =
     (sublist (toLowerCase requested) (toLowerCase (final_segment (name t))) \<or>
      sublist (toLowerCase (final_segment (name t))) (toLowerCase requested))"

text \<open>
  The pairing of requests and outcomes in a history: every \<open>tool_result\<close> turn carries
  the id of a \<open>tool_use\<close> turn that stands before it (\<open>seen\<close> holds the ids met so far).
\<close>

fun paired :: "string list \<Rightarrow> message list \<Rightarrow> bool" where
  "paired seen [] = True"
| "paired seen (m # ms) =
     (case content m of
        Str s \<Rightarrow> paired seen ms
      | ToolUseParam cid nm args \<Rightarrow> paired (cid # seen) ms
      | ToolResultParam cid txt err \<Rightarrow> cid \<in> set seen \<and> paired seen ms)"

subsection \<open>Example providers and models\<close>

text \<open>
  A world for the examples: the number of model calls made, and the log of the tool
  names the providers were invoked with.
\<close>

type_synonym demo_world = "nat \<times> string list"

definition mkTool :: "string \<Rightarrow> tool" where
  "mkTool n = \<lparr>name = n, description = [], input_schema = ''{}''\<rparr>"

text \<open>A provider that lists the given tools and answers every call, logging its name.\<close>

definition demoClient :: "string list \<Rightarrow> demo_world client" where
  "demoClient names =
     \<lparr>client_listTools = map mkTool names,
      client_callTool = (\<lambda>nm args kl.
         (Inr \<lparr>result_content = StringContent (''ok:'' @ nm), isError = False\<rparr>,
          (fst kl, snd kl @ [nm])))\<rparr>"

text \<open>A model that answers its \<open>k\<close>-th call with the \<open>k\<close>-th entry of a script.\<close>

definition scriptedModel ::
  "(error + content_block list) list \<Rightarrow> message list \<Rightarrow> tool list option \<Rightarrow> demo_world
     \<Rightarrow> (error + content_block list) \<times> demo_world" where
  "scriptedModel script msgs catalog kl =
     ((if fst kl < length script then script ! fst kl else Inr []), (Suc (fst kl), snd kl))"

definition demoConn :: "string list \<Rightarrow> error + transport \<times> demo_world client" where
  "demoConn names = Inr (StdioClientTransport ''npx'' [], demoClient names)"

text \<open>
  Clients for the examples: a multi-provider client with the two providers of \<open>main\<close>,
  and a single-provider client, each talking to a scripted model.
\<close>

definition demoMulti :: "(error + content_block list) list \<Rightarrow> demo_world MCPClient" where
  "demoMulti script =
     snd (connectAll
            [(''filesystem'', demoConn [''write_file'', ''read_file'']),
             (''github'', demoConn [''create_repository''])]
            (newMCPClient (scriptedModel script)))"

definition demoSingle :: "(error + content_block list) list \<Rightarrow> demo_world MCPClient" where
  "demoSingle script =
     snd (connectToServer (demoConn [''echo'']) (newMCPClient (scriptedModel script)))"

text \<open>
  A client that was connected with \<open>connectToServer\<close> and then with
  \<open>connectToMultipleServers\<close>: it is in multi mode and its catalog holds the name
  \<open>echo\<close>, which has no separator.
\<close>

definition demoMixed :: "(error + content_block list) list \<Rightarrow> demo_world MCPClient" where
  "demoMixed script =
     snd (connectToMultipleServers ''github'' (demoConn [''create_repository''])
            (demoSingle script))"

section \<open>Properties\<close>

declare queryLoop.simps [simp del]

subsection \<open>String operations\<close>

lemma str_includes_sublist: "str_includes s t = sublist t s"
  by (induction s) (auto simp: sublist_Cons_right)

lemma str_split_not_Nil: "str_split c s \<noteq> []"
  by (induction s) (auto split: list.splits)

lemma str_split_no_sep: "c \<notin> set s \<Longrightarrow> str_split c s = [s]"
  by (induction s) auto

lemma str_split_sep_tl: "c \<in> set s \<Longrightarrow> tl (str_split c s) \<noteq> []"
  using str_split_not_Nil[of c]
  by (induction s) (auto split: list.splits)

lemma last_str_split_Cons:
  "last (str_split c (x # xs)) = (if c \<in> set xs \<or> x = c then last (str_split c xs) else x # xs)"
proof (cases "x = c")
  case True
  then show ?thesis using str_split_not_Nil[of c xs] by simp
next
  case False
  show ?thesis
  proof (cases "c \<in> set xs")
    case True
    obtain q qs where q: "str_split c xs = q # qs"
      using str_split_not_Nil[of c xs] by (cases "str_split c xs") auto
    with str_split_sep_tl[OF True] have "qs \<noteq> []" by simp
    with q False True show ?thesis by simp
  next
    case nin: False
    with False show ?thesis by (simp add: str_split_no_sep)
  qed
qed

lemma last_str_split: "last (str_split c s) = rev (takeWhile (\<lambda>x. x \<noteq> c) (rev s))"
proof (induction s)
  case Nil
  show ?case by simp
next
  case (Cons x xs)
  show ?case
    unfolding last_str_split_Cons Cons.IH
    by (auto simp: takeWhile_append)
qed

lemma indexOf_ge: "- 1 \<le> indexOf s c"
  by (induction s) (auto simp: Let_def)

lemma indexOf_none: "(indexOf s c = - 1) = (c \<notin> set s)"
proof (induction s)
  case Nil
  show ?case by simp
next
  case (Cons x xs)
  with indexOf_ge[of xs c] show ?case by (auto simp: Let_def)
qed


lemma indexOf_first: "c \<notin> set p \<Longrightarrow> indexOf (p @ c # l) c = int (length p)"
  by (induction p) (auto simp: Let_def)

lemma substring_prefix: "substring (p @ c # l) 0 (int (length p)) = p"
  by (simp add: substring_def Let_def min_def max_def)

lemma substringFrom_suffix: "substringFrom (p @ c # l) (int (length p) + 1) = l"
  by (simp add: substringFrom_def substring_def Let_def min_def max_def nat_add_distrib)

lemma final_segment_split: "last (str_split CHR ''_'' s) = final_segment s"
  by (simp add: last_str_split final_segment_def)

subsection \<open>What one content block and one round change\<close>



lemma processContent_detected:
  assumes "processContent b (fr, tud, this, w) = (fr', tud', this', w')"
  shows "tud' = (tud \<or> is_ToolUse b)"
  using assms
  by (cases b)
     (auto simp: push_def toolNotFound_def Let_def split: option.splits if_splits sum.splits prod.splits)

lemma fold_processContent_detected:
  assumes "fold processContent bs (fr, tud, this, w) = (fr', tud', this', w')"
  shows "tud' = (tud \<or> (\<exists>b\<in>set bs. is_ToolUse b))"
  using assms
proof (induction bs arbitrary: fr tud this w)
  case Nil
  then show ?case by simp
next
  case (Cons b bs)
  obtain fr1 tud1 this1 w1 where s: "processContent b (fr, tud, this, w) = (fr1, tud1, this1, w1)"
    by (metis prod_cases4)
  with Cons.prems have "fold processContent bs (fr1, tud1, this1, w1) = (fr', tud', this', w')"
    by simp
  from Cons.IH[OF this] processContent_detected[OF s] show ?case
    by auto
qed




lemma queryLoop_again:
  "iteration < maxIterations \<Longrightarrow>
   anthropic this (conversationHistory this) (toolsParam this) w = (Inr response, w1) \<Longrightarrow>
   fold processContent response (fr, False, this, w1) = (fr1, True, this1, w2) \<Longrightarrow>
   queryLoop this w fr iteration =
     queryLoop this1 w2
       (if iteration + 1 = maxIterations then fr1 @ ''Maximum tool iterations reached.'' else fr1)
       (iteration + 1)"
  by (simp add: queryLoop.simps[of this w fr iteration])



subsection \<open>The \<open>clear\<close> command\<close>

text \<open>
  C10. The \<open>clear\<close> command (in any letter case) replaces the conversation history by
  the empty list in one assignment and touches nothing else: the tool catalog, the
  provider clients and transports, the mode flag, the model handle and the world
  outside are as before, and the chat loop goes on.
\<close>

theorem clear_only_resets_history:
  assumes "toLowerCase line = ''clear''"
  shows "chatLoopStep line this w = (True, this\<lparr>conversationHistory := []\<rparr>, w) \<and>
         (case chatLoopStep line this w of
            (continue, this', w') \<Rightarrow>
              conversationHistory this' = [] \<and> allTools this' = allTools this \<and>
              mcpClients this' = mcpClients this \<and> transports this' = transports this \<and>
              mode this' = mode this \<and> anthropic this' = anthropic this \<and> w' = w)"
  using assms by (simp add: chatLoopStep_def)

theorem clear_only_resets_history_witness:
  "toLowerCase ''Clear'' = ''clear'' \<and>
   length (conversationHistory
             (fst (snd (processQuery ''hello'' (demoMulti [Inr [Text ''hi'']]) (0, []))))) = 2 \<and>
   chatLoopStep ''Clear'' (fst (snd (processQuery ''hello'' (demoMulti [Inr [Text ''hi'']]) (0, []))))
       (1, []) =
     (True,
      (fst (snd (processQuery ''hello'' (demoMulti [Inr [Text ''hi'']]) (0, []))))
        \<lparr>conversationHistory := []\<rparr>,
      (1, []))"
proof -
  have h: "toLowerCase ''Clear'' = ''clear''"
    by code_simp
  have n: "length (conversationHistory
             (fst (snd (processQuery ''hello'' (demoMulti [Inr [Text ''hi'']]) (0, []))))) = 2"
    by code_simp
  let ?st = "fst (snd (processQuery ''hello'' (demoMulti [Inr [Text ''hi'']]) (0, [])))"
  have c: "chatLoopStep ''Clear'' ?st (1, []) = (True, ?st\<lparr>conversationHistory := []\<rparr>, (1, []))"
    by (rule conjunct1 [OF clear_only_resets_history [OF h]])
  from h n c show ?thesis
    by (intro conjI)
qed

subsection \<open>The bound on the rounds of a query\<close>






subsection \<open>A failing model call\<close>





subsection \<open>A requested name that nothing matches\<close>

lemma find_Some_holds: "find P xs = Some x \<Longrightarrow> P x \<and> x \<in> set xs"
  by (induction xs) (auto split: if_splits)

lemma findToolByName_None_iff:
  "findToolByName this nm = None \<longleftrightarrow>
     (\<forall>t\<in>set (allTools this). \<not> exactPred nm t \<and> \<not> suffixPred nm t \<and> \<not> flexiblePred nm t)"
  by (auto simp: findToolByName_def find_None_iff split: option.splits dest: find_Some_holds)

text \<open>
  C7. When none of the three strategies matches any catalog entry, \<open>findToolByName\<close>
  returns \<open>undefined\<close> (it has no throwing path). The loop then appends exactly one
  \<open>tool_result\<close> turn with \<open>is_error\<close> set for that request, adds the note to the buffer
  and goes on with the remaining blocks of the same response; the round is completed
  and the loop proceeds as after any other round with a tool request.
\<close>

theorem unmatched_name_recorded_as_error:
  assumes "\<forall>t\<in>set (allTools this).
             \<not> exactPred nm t \<and> \<not> suffixPred nm t \<and> \<not> flexiblePred nm t"
  shows "findToolByName this nm = None \<and>
         processContent (ToolUse cid nm args) (fr, tud, this, w) =
           (fr @ ''[Error: Tool '' @ nm @ '' not found]'' @ [CHR 0x0A], True,
            this\<lparr>conversationHistory := conversationHistory this @
               [\<lparr>role = User,
                 content = ToolResultParam cid (''Error: Tool '' @ nm @ '' not found'') True\<rparr>]\<rparr>,
            w) \<and>
         fold processContent (ToolUse cid nm args # rest) (fr, tud, this, w) =
           fold processContent rest
             (fr @ ''[Error: Tool '' @ nm @ '' not found]'' @ [CHR 0x0A], True,
              this\<lparr>conversationHistory := conversationHistory this @
                 [\<lparr>role = User,
                   content = ToolResultParam cid (''Error: Tool '' @ nm @ '' not found'') True\<rparr>]\<rparr>,
              w) \<and>
         (iteration < maxIterations \<and>
          anthropic this (conversationHistory this) (toolsParam this) w0 =
            (Inr (ToolUse cid nm args # rest), w) \<longrightarrow>
            queryLoop this w0 fr iteration =
              (case fold processContent rest
                      (fr @ ''[Error: Tool '' @ nm @ '' not found]'' @ [CHR 0x0A], True,
                       this\<lparr>conversationHistory := conversationHistory this @
                          [\<lparr>role = User,
                            content = ToolResultParam cid
                                        (''Error: Tool '' @ nm @ '' not found'') True\<rparr>]\<rparr>,
                       w) of
                 (fr', tud', this', w') \<Rightarrow>
                   queryLoop this' w'
                     (if iteration + 1 = maxIterations
                      then fr' @ ''Maximum tool iterations reached.'' else fr')
                     (iteration + 1)))"
proof -
  let ?acc = "(fr @ ''[Error: Tool '' @ nm @ '' not found]'' @ [CHR 0x0A], True,
            this\<lparr>conversationHistory := conversationHistory this @
               [\<lparr>role = User,
                 content = ToolResultParam cid (''Error: Tool '' @ nm @ '' not found'') True\<rparr>]\<rparr>,
            w)"
  from assms have none: "findToolByName this nm = None"
    by (simp add: findToolByName_None_iff)
  then have pc: "processContent (ToolUse cid nm args) (fr, tud, this, w) = ?acc" for tud
    by (simp add: toolNotFound_def push_def)
  then have fd: "fold processContent (ToolUse cid nm args # rest) (fr, tud, this, w) =
                   fold processContent rest ?acc" for tud
    by simp
  have loop: "queryLoop this w0 fr iteration =
      (case fold processContent rest ?acc of
         (fr', tud', this', w') \<Rightarrow>
           queryLoop this' w'
             (if iteration + 1 = maxIterations
              then fr' @ ''Maximum tool iterations reached.'' else fr')
             (iteration + 1))"
    if lt: "iteration < maxIterations"
      and a: "anthropic this (conversationHistory this) (toolsParam this) w0 =
                (Inr (ToolUse cid nm args # rest), w)"
  proof -
    obtain fr' tud' this' w' where f: "fold processContent rest ?acc = (fr', tud', this', w')"
      by (metis prod_cases4)
    from fold_processContent_detected [OF f] have "tud'" by simp
    with f fd [of False]
    have f': "fold processContent (ToolUse cid nm args # rest) (fr, False, this, w) =
                (fr', True, this', w')"
      by simp
    from queryLoop_again [OF lt a f'] f show ?thesis
      by simp
  qed
  from none pc fd loop show ?thesis
    by blast
qed

theorem unmatched_name_recorded_as_error_witness:
  "list_all (\<lambda>t. \<not> exactPred ''delete_universe'' t \<and> \<not> suffixPred ''delete_universe'' t \<and>
                   \<not> flexiblePred ''delete_universe'' t)
     (allTools (demoMulti [])) \<and>
   findToolByName (demoMulti []) ''delete_universe'' = None \<and>
   fold processContent [ToolUse ''tu1'' ''delete_universe'' ''{}'', Text ''sorry'']
       ([], False, demoMulti [], (1, [])) =
     (''[Error: Tool delete_universe not found]'' @ [CHR 0x0A] @ ''sorry'' @ [CHR 0x0A], True,
      (demoMulti [])\<lparr>conversationHistory :=
         [\<lparr>role = User,
           content = ToolResultParam ''tu1'' ''Error: Tool delete_universe not found'' True\<rparr>,
          \<lparr>role = Assistant, content = Str ''sorry''\<rparr>]\<rparr>,
      (1, []))"
proof (intro conjI)
  show l: "list_all (\<lambda>t. \<not> exactPred ''delete_universe'' t \<and> \<not> suffixPred ''delete_universe'' t \<and>
                   \<not> flexiblePred ''delete_universe'' t)
     (allTools (demoMulti []))"
    by code_simp
  then have h: "\<forall>t\<in>set (allTools (demoMulti [])).
      \<not> exactPred ''delete_universe'' t \<and> \<not> suffixPred ''delete_universe'' t \<and>
      \<not> flexiblePred ''delete_universe'' t"
    by (simp add: list_all_iff)
  note r = unmatched_name_recorded_as_error
             [OF h, where cid = "''tu1''" and args = "''{}''" and fr = "[]" and tud = False
                and w = "(1, [])" and rest = "[Text ''sorry'']" and iteration = 0
                and ?w0.0 = "(0, [])"]
  from r show "findToolByName (demoMulti []) ''delete_universe'' = None"
    by (rule conjunct1)
  have e: "conversationHistory (demoMulti []) = []"
    by code_simp
  from r have "fold processContent [ToolUse ''tu1'' ''delete_universe'' ''{}'', Text ''sorry'']
       ([], False, demoMulti [], (1, [])) =
     fold processContent [Text ''sorry'']
       ([] @ ''[Error: Tool '' @ ''delete_universe'' @ '' not found]'' @ [CHR 0x0A], True,
        (demoMulti [])\<lparr>conversationHistory := conversationHistory (demoMulti []) @
               [\<lparr>role = User,
                 content = ToolResultParam ''tu1''
                             (''Error: Tool '' @ ''delete_universe'' @ '' not found'') True\<rparr>]\<rparr>,
        (1, []))"
    by (rule conjunct1 [OF conjunct2 [OF conjunct2]])
  then show "fold processContent [ToolUse ''tu1'' ''delete_universe'' ''{}'', Text ''sorry'']
       ([], False, demoMulti [], (1, [])) =
     (''[Error: Tool delete_universe not found]'' @ [CHR 0x0A] @ ''sorry'' @ [CHR 0x0A], True,
      (demoMulti [])\<lparr>conversationHistory :=
         [\<lparr>role = User,
           content = ToolResultParam ''tu1'' ''Error: Tool delete_universe not found'' True\<rparr>,
          \<lparr>role = Assistant, content = Str ''sorry''\<rparr>]\<rparr>,
      (1, []))"
    by (simp add: push_def e)
qed

subsection \<open>Dispatch in multi-provider mode\<close>

lemma callTool_multi_split:
  assumes "mode this = Multi" and "CHR ''_'' \<notin> set providerId"
  shows "callTool this (providerId @ ''_'' @ localName) args w =
           (case mcpClients this providerId of
              None \<Rightarrow> (Inl (Error (''No client found for server type: '' @ providerId)), w)
            | Some cl \<Rightarrow> client_callTool cl localName args w)"
proof -
  have i: "indexOf (providerId @ ''_'' @ localName) CHR ''_'' = int (length providerId)"
    using indexOf_first [OF assms(2), of localName] by simp
  have p: "substring (providerId @ ''_'' @ localName) 0 (int (length providerId)) = providerId"
    using substring_prefix [of providerId "CHR ''_''" localName] by simp
  have l: "substringFrom (providerId @ ''_'' @ localName) (int (length providerId) + 1) = localName"
    using substringFrom_suffix [of providerId "CHR ''_''" localName] by simp
  from assms(1) show ?thesis
    by (simp add: callTool_def Let_def i p l del: append.simps)
qed

text \<open>
  C5. In multi-provider mode \<open>callTool\<close> cuts the effective name at its first
  separator: for a provider id without separator and any local name (which may hold
  separators itself), the name \<open>providerId_localName\<close> is dispatched to the client
  registered under \<open>providerId\<close>, invoked with \<open>localName\<close> unchanged and the same
  arguments; when no client is registered under that id it fails with
  \<open>No client found for server type: providerId\<close> and reaches no provider. Every name
  holding a separator is of this form, with the text before its first separator as
  the provider id.
\<close>

theorem callTool_splits_at_first_separator:
  assumes "mode this = Multi"
  shows "(CHR ''_'' \<notin> set providerId \<longrightarrow>
            callTool this (providerId @ ''_'' @ localName) args w =
              (case mcpClients this providerId of
                 None \<Rightarrow> (Inl (Error (''No client found for server type: '' @ providerId)), w)
               | Some cl \<Rightarrow> client_callTool cl localName args w)) \<and>
         (CHR ''_'' \<in> set toolName \<longrightarrow>
            toolName = takeWhile (\<lambda>c. c \<noteq> CHR ''_'') toolName @ ''_'' @
                         tl (dropWhile (\<lambda>c. c \<noteq> CHR ''_'') toolName) \<and>
            callTool this toolName args w =
              (case mcpClients this (takeWhile (\<lambda>c. c \<noteq> CHR ''_'') toolName) of
                 None \<Rightarrow>
                   (Inl (Error (''No client found for server type: '' @
                                  takeWhile (\<lambda>c. c \<noteq> CHR ''_'') toolName)), w)
               | Some cl \<Rightarrow>
                   client_callTool cl (tl (dropWhile (\<lambda>c. c \<noteq> CHR ''_'') toolName)) args w))"
proof (intro conjI impI)
  assume "CHR ''_'' \<notin> set providerId"
  with assms show "callTool this (providerId @ ''_'' @ localName) args w =
              (case mcpClients this providerId of
                 None \<Rightarrow> (Inl (Error (''No client found for server type: '' @ providerId)), w)
               | Some cl \<Rightarrow> client_callTool cl localName args w)"
    by (rule callTool_multi_split)
next
  let ?p = "takeWhile (\<lambda>c. c \<noteq> CHR ''_'') toolName"
  let ?d = "dropWhile (\<lambda>c. c \<noteq> CHR ''_'') toolName"
  assume m: "CHR ''_'' \<in> set toolName"
  then have "?d \<noteq> []" by (simp add: dropWhile_eq_Nil_conv) 
  moreover have "?d \<noteq> [] \<Longrightarrow> hd ?d = CHR ''_''"
    using hd_dropWhile [of "\<lambda>c. c \<noteq> CHR ''_''" toolName] by simp
  ultimately have d: "?d = CHR ''_'' # tl ?d"
    by (cases ?d) auto
  have "toolName = ?p @ ?d" by simp
  with d show eq: "toolName = ?p @ ''_'' @ tl ?d" by simp
  have np: "CHR ''_'' \<notin> set ?p"
    by (auto dest: set_takeWhileD)
  from callTool_multi_split [OF assms np, of "tl ?d" args w] eq
  show "callTool this toolName args w =
              (case mcpClients this ?p of
                 None \<Rightarrow> (Inl (Error (''No client found for server type: '' @ ?p)), w)
               | Some cl \<Rightarrow> client_callTool cl (tl ?d) args w)"
    by simp
qed

theorem callTool_splits_at_first_separator_witness:
  "mode (demoMulti []) = Multi \<and>
   callTool (demoMulti []) ''filesystem_write_file'' ''{}'' (0, []) =
     (Inr \<lparr>result_content = StringContent ''ok:write_file'', isError = False\<rparr>,
      (0, [''write_file''])) \<and>
   callTool (demoMulti []) ''gitlab_push_branch'' ''{}'' (0, []) =
     (Inl (Error ''No client found for server type: gitlab''), (0, []))"
proof (intro conjI)
  show m: "mode (demoMulti []) = Multi"
    by code_simp
  have fs: "(case mcpClients (demoMulti []) ''filesystem'' of
               None \<Rightarrow> (Inl (Error (''No client found for server type: '' @ ''filesystem'')), (0, []))
             | Some cl \<Rightarrow> client_callTool cl ''write_file'' ''{}'' (0, [])) =
            (Inr \<lparr>result_content = StringContent ''ok:write_file'', isError = False\<rparr>,
             (0, [''write_file'']))"
    by code_simp
  have gl: "(case mcpClients (demoMulti []) ''gitlab'' of
               None \<Rightarrow> (Inl (Error (''No client found for server type: '' @ ''gitlab'')), (0, []))
             | Some cl \<Rightarrow> client_callTool cl ''push_branch'' ''{}'' (0, [])) =
            (Inl (Error ''No client found for server type: gitlab''), (0, []))"
    by code_simp
  have n1: "CHR ''_'' \<notin> set ''filesystem''" and n2: "CHR ''_'' \<notin> set ''gitlab''"
    by simp_all
  from callTool_splits_at_first_separator
         [OF m, where providerId = "''filesystem''" and localName = "''write_file''"
            and args = "''{}''" and w = "(0, [])" and toolName = "''filesystem_write_file''"]
       n1
  have "callTool (demoMulti []) (''filesystem'' @ ''_'' @ ''write_file'') ''{}'' (0, []) =
          (case mcpClients (demoMulti []) ''filesystem'' of
               None \<Rightarrow> (Inl (Error (''No client found for server type: '' @ ''filesystem'')), (0, []))
             | Some cl \<Rightarrow> client_callTool cl ''write_file'' ''{}'' (0, []))"
    by blast
  with fs show "callTool (demoMulti []) ''filesystem_write_file'' ''{}'' (0, []) =
     (Inr \<lparr>result_content = StringContent ''ok:write_file'', isError = False\<rparr>,
      (0, [''write_file'']))"
    by simp
  from callTool_splits_at_first_separator
         [OF m, where providerId = "''gitlab''" and localName = "''push_branch''"
            and args = "''{}''" and w = "(0, [])" and toolName = "''gitlab_push_branch''"]
       n2
  have "callTool (demoMulti []) (''gitlab'' @ ''_'' @ ''push_branch'') ''{}'' (0, []) =
          (case mcpClients (demoMulti []) ''gitlab'' of
               None \<Rightarrow> (Inl (Error (''No client found for server type: '' @ ''gitlab'')), (0, []))
             | Some cl \<Rightarrow> client_callTool cl ''push_branch'' ''{}'' (0, []))"
    by blast
  with gl show "callTool (demoMulti []) ''gitlab_push_branch'' ''{}'' (0, []) =
     (Inl (Error ''No client found for server type: gitlab''), (0, []))"
    by simp
qed

text \<open>
  C9. In multi-provider mode a name without separator is not dispatched: \<open>callTool\<close>
  fails with \<open>Invalid tool name format: \<close> followed by the name and the world is as
  before (no provider was reached). When such a name is what \<open>findToolByName\<close>
  resolved a request to, the loop has recorded the request, records the failure as an
  error outcome for it, adds the note to the buffer and goes on with the remaining
  blocks of the response.
\<close>

theorem callTool_without_separator_is_recorded:
  assumes "mode this = Multi" and "CHR ''_'' \<notin> set toolName"
  shows "callTool this toolName args w =
           (Inl (Error (''Invalid tool name format: '' @ toolName)), w) \<and>
         (findToolByName this requested = Some toolName \<and> toolName \<noteq> [] \<longrightarrow>
            processContent (ToolUse cid requested args) (fr, tud, this, w) =
              (fr @ ''[Tool error: Invalid tool name format: '' @ toolName @ '']'' @ [CHR 0x0A],
               True,
               this\<lparr>conversationHistory := conversationHistory this @
                  [\<lparr>role = Assistant, content = ToolUseParam cid requested args\<rparr>,
                   \<lparr>role = User,
                    content = ToolResultParam cid
                                (''Error: Invalid tool name format: '' @ toolName) True\<rparr>]\<rparr>,
               w) \<and>
            fold processContent (ToolUse cid requested args # rest) (fr, tud, this, w) =
              fold processContent rest
                (fr @ ''[Tool error: Invalid tool name format: '' @ toolName @ '']'' @ [CHR 0x0A],
                 True,
                 this\<lparr>conversationHistory := conversationHistory this @
                    [\<lparr>role = Assistant, content = ToolUseParam cid requested args\<rparr>,
                     \<lparr>role = User,
                      content = ToolResultParam cid
                                  (''Error: Invalid tool name format: '' @ toolName) True\<rparr>]\<rparr>,
                 w))"
proof -
  from assms(2) have i: "indexOf toolName CHR ''_'' = - 1"
    by (simp add: indexOf_none)
  have c: "callTool that toolName args w =
             (Inl (Error (''Invalid tool name format: '' @ toolName)), w)"
    if "mode that = Multi" for that :: "'a MCPClient"
    using that i by (simp add: callTool_def)
  have p: "processContent (ToolUse cid requested args) (fr, tud, this, w) =
              (fr @ ''[Tool error: Invalid tool name format: '' @ toolName @ '']'' @ [CHR 0x0A],
               True,
               this\<lparr>conversationHistory := conversationHistory this @
                  [\<lparr>role = Assistant, content = ToolUseParam cid requested args\<rparr>,
                   \<lparr>role = User,
                    content = ToolResultParam cid
                                (''Error: Invalid tool name format: '' @ toolName) True\<rparr>]\<rparr>,
               w)"
    if "findToolByName this requested = Some toolName" and "toolName \<noteq> []"
    using that assms(1) by (simp add: c push_def)
  from c [OF assms(1)] p show ?thesis
    by simp
qed

theorem callTool_without_separator_is_recorded_witness:
  "mode (demoMixed []) = Multi \<and>
   findToolByName (demoMixed []) ''Echo'' = Some ''echo'' \<and>
   callTool (demoMixed []) ''echo'' ''{}'' (1, []) =
     (Inl (Error ''Invalid tool name format: echo''), (1, [])) \<and>
   fold processContent [ToolUse ''tu1'' ''Echo'' ''{}'', Text ''next''] ([], False, demoMixed [], (1, [])) =
     (''[Tool error: Invalid tool name format: echo]'' @ [CHR 0x0A] @ ''next'' @ [CHR 0x0A], True,
      (demoMixed [])\<lparr>conversationHistory :=
         [\<lparr>role = Assistant, content = ToolUseParam ''tu1'' ''Echo'' ''{}''\<rparr>,
          \<lparr>role = User,
           content = ToolResultParam ''tu1'' ''Error: Invalid tool name format: echo'' True\<rparr>,
          \<lparr>role = Assistant, content = Str ''next''\<rparr>]\<rparr>,
      (1, []))"
proof (intro conjI)
  show m: "mode (demoMixed []) = Multi"
    by code_simp
  show f: "findToolByName (demoMixed []) ''Echo'' = Some ''echo''"
    by code_simp
  have n: "CHR ''_'' \<notin> set ''echo''"
    by simp
  have e: "conversationHistory (demoMixed []) = []"
    by code_simp
  note r = callTool_without_separator_is_recorded
             [OF m n, where args = "''{}''" and w = "(1, [])" and requested = "''Echo''"
                and cid = "''tu1''" and fr = "[]" and tud = False and rest = "[Text ''next'']"]
  from r show "callTool (demoMixed []) ''echo'' ''{}'' (1, []) =
     (Inl (Error ''Invalid tool name format: echo''), (1, []))"
    by simp
  from r f have "fold processContent (ToolUse ''tu1'' ''Echo'' ''{}'' # [Text ''next''])
                   ([], False, demoMixed [], (1, [])) =
              fold processContent [Text ''next'']
                ([] @ ''[Tool error: Invalid tool name format: '' @ ''echo'' @ '']'' @ [CHR 0x0A],
                 True,
                 (demoMixed [])\<lparr>conversationHistory := conversationHistory (demoMixed []) @
                    [\<lparr>role = Assistant, content = ToolUseParam ''tu1'' ''Echo'' ''{}''\<rparr>,
                     \<lparr>role = User,
                      content = ToolResultParam ''tu1''
                                  (''Error: Invalid tool name format: '' @ ''echo'') True\<rparr>]\<rparr>,
                 (1, []))"
    by blast
  then show "fold processContent [ToolUse ''tu1'' ''Echo'' ''{}'', Text ''next'']
       ([], False, demoMixed [], (1, [])) =
     (''[Tool error: Invalid tool name format: echo]'' @ [CHR 0x0A] @ ''next'' @ [CHR 0x0A], True,
      (demoMixed [])\<lparr>conversationHistory :=
         [\<lparr>role = Assistant, content = ToolUseParam ''tu1'' ''Echo'' ''{}''\<rparr>,
          \<lparr>role = User,
           content = ToolResultParam ''tu1'' ''Error: Invalid tool name format: echo'' True\<rparr>,
          \<lparr>role = Assistant, content = Str ''next''\<rparr>]\<rparr>,
      (1, []))"
    by (simp add: push_def e)
qed

subsection \<open>The flexible strategy\<close>

text \<open>
  C3, as stated, fails: the flexible strategy also matches a requested name that occurs
  only in the provider prefix of an effective name. In the catalog of the two example
  providers the request \<open>hub\<close> resolves to \<open>github_create_repository\<close>, whose final
  segment \<open>repository\<close> neither contains \<open>hub\<close> nor is contained in it.
\<close>

theorem flexible_matches_provider_prefix:
  "flexiblePred ''hub'' (mkTool ''github_create_repository'') \<and>
   \<not> flexible_spec ''hub'' (mkTool ''github_create_repository'') \<and>
   findToolByName (demoMulti []) ''hub'' = Some ''github_create_repository''"
  by code_simp

text \<open>
  C3, amended. The flexible strategy matches a catalog entry exactly when the
  requested name is a case-insensitive substring of the entry's whole effective name
  (provider prefix included), or the final segment of the effective name is a
  case-insensitive substring of the requested name.
\<close>

theorem flexiblePred_characterisation:
  "flexiblePred requested t \<longleftrightarrow>
     sublist (toLowerCase requested) (toLowerCase (name t)) \<or>
     sublist (toLowerCase (final_segment (name t))) (toLowerCase requested)"
  by (simp add: flexiblePred_def str_includes_sublist final_segment_split)

subsection \<open>Effective names in multi-provider mode\<close>

lemma first_separator_unique:
  assumes "c \<notin> set p" and "c \<notin> set q" and "p @ c # n = q @ c # m"
  shows "p = q \<and> n = m"
proof -
  have "takeWhile (\<lambda>x. x \<noteq> c) (p @ c # n) = p"
    using assms(1) by (auto simp: takeWhile_tail)
  moreover have "takeWhile (\<lambda>x. x \<noteq> c) (q @ c # m) = q"
    using assms(2) by (auto simp: takeWhile_tail)
  ultimately have "p = q" using assms(3) by simp
  with assms(3) show ?thesis by simp
qed

lemma distinct_prefixed:
  "distinct (map fst rs) \<Longrightarrow>
   \<forall>(p, ns)\<in>set rs. c \<notin> set p \<and> distinct ns \<Longrightarrow>
   distinct (concat (map (\<lambda>(p, ns). map (\<lambda>n. p @ c # n) ns) rs))"
proof (induction rs)
  case Nil
  show ?case by simp
next
  case (Cons r rs)
  obtain p ns where r: "r = (p, ns)" by (cases r)
  from Cons.prems r have cp: "c \<notin> set p" and dn: "distinct ns"
    and fresh: "p \<notin> fst ` set rs" by auto
  have inj: "inj_on (\<lambda>n. p @ c # n) (set ns)"
    by (simp add: inj_on_def)
  have disj: "set (map (\<lambda>n. p @ c # n) ns) \<inter>
              set (concat (map (\<lambda>(p, ns). map (\<lambda>n. p @ c # n) ns) rs)) = {}"
  proof (rule ccontr)
    assume "\<not> ?thesis"
    then obtain n q ms m where "n \<in> set ns" "(q, ms) \<in> set rs" "m \<in> set ms"
      and eq: "p @ c # n = q @ c # m"
      by auto
    moreover from \<open>(q, ms) \<in> set rs\<close> Cons.prems(2) have "c \<notin> set q" by auto
    ultimately have "p = q" using first_separator_unique [OF cp _ eq] by simp
    with \<open>(q, ms) \<in> set rs\<close> fresh show False by force
  qed
  from Cons.prems have "distinct (concat (map (\<lambda>(p, ns). map (\<lambda>n. p @ c # n) ns) rs))"
    by (intro Cons.IH) auto
  with inj dn disj r show ?case
    by (simp add: distinct_map)
qed

lemma connectAll_names:
  "map name (allTools (snd (connectAll regs this))) =
     map name (allTools this) @
     concat (map (\<lambda>(p, conn). case conn of
                    Inl e \<Rightarrow> []
                  | Inr (tr, cl) \<Rightarrow> map (\<lambda>t. p @ ''_'' @ name t) (client_listTools cl))
               (takeWhile (\<lambda>(p, conn). \<not> isl conn) regs))"
proof (induction regs arbitrary: this)
  case Nil
  show ?case by simp
next
  case (Cons r regs)
  obtain p conn where r: "r = (p, conn)" by (cases r)
  show ?case
  proof (cases conn)
    case (Inl e)
    with r show ?thesis by (simp add: connectToMultipleServers_def)
  next
    case (Inr c)
    obtain tr cl where c: "c = (tr, cl)" by (cases c)
    from r Inr c Cons.IH show ?thesis
      by (simp add: connectToMultipleServers_def Let_def comp_def)
  qed
qed

text \<open>
  C4, as stated, fails: a provider id may itself hold the separator. The providers
  \<open>my\<close> (with the tool \<open>server_ping\<close>) and \<open>my_server\<close> (with the tool \<open>ping\<close>) have
  different ids and each has unique local names, yet both tools get the effective
  name \<open>my_server_ping\<close>.
\<close>

theorem prefixed_names_collide:
  "distinct (map fst [(''my'', demoConn [''server_ping'']), (''my_server'', demoConn [''ping''])]) \<and>
   distinct (map name (client_listTools (demoClient [''server_ping'']))) \<and>
   distinct (map name (client_listTools (demoClient [''ping'']))) \<and>
   map name (allTools (snd (connectAll
       [(''my'', demoConn [''server_ping'']), (''my_server'', demoConn [''ping''])]
       (newMCPClient (scriptedModel []))))) = [''my_server_ping'', ''my_server_ping''] \<and>
   \<not> distinct (map name (allTools (snd (connectAll
       [(''my'', demoConn [''server_ping'']), (''my_server'', demoConn [''ping''])]
       (newMCPClient (scriptedModel []))))))"
  by code_simp

text \<open>
  C4, amended. For providers with pairwise different ids none of which holds the
  separator, connected one after the other in multi-provider mode to a client whose
  catalog is empty, and each with local tool names that are unique within the
  provider: the catalog's names are the prefixed names \<open>providerId_localName\<close> of the
  providers connected (those before the first failing connection), and they are
  pairwise distinct, whether or not two providers expose tools of the same local name.
\<close>

theorem prefixed_names_distinct:
  assumes "allTools this = []"
    and "distinct (map fst regs)"
    and "\<forall>(p, conn)\<in>set regs.
           CHR ''_'' \<notin> set p \<and>
           (case conn of
              Inl e \<Rightarrow> True
            | Inr (tr, cl) \<Rightarrow> distinct (map name (client_listTools cl)))"
  shows "map name (allTools (snd (connectAll regs this))) =
           concat (map (\<lambda>(p, conn). case conn of
                          Inl e \<Rightarrow> []
                        | Inr (tr, cl) \<Rightarrow> map (\<lambda>t. p @ ''_'' @ name t) (client_listTools cl))
                     (takeWhile (\<lambda>(p, conn). \<not> isl conn) regs)) \<and>
         distinct (map name (allTools (snd (connectAll regs this))))"
proof -
  let ?ok = "takeWhile (\<lambda>(p, conn). \<not> isl conn) regs"
  let ?locals = "\<lambda>(p, conn). (p, case conn of
                                     Inl e \<Rightarrow> []
                                   | Inr (tr, cl) \<Rightarrow> map name (client_listTools cl))"
  let ?f = "\<lambda>(p, conn). case conn of
                          Inl e \<Rightarrow> []
                        | Inr (tr, cl) \<Rightarrow> map (\<lambda>t. p @ ''_'' @ name t) (client_listTools cl)"
  have names: "map name (allTools (snd (connectAll regs this))) = concat (map ?f ?ok)"
    by (simp only: connectAll_names [of regs this] assms(1) list.map(1) append.simps(1))
  have "map fst regs = map fst ?ok @ map fst (dropWhile (\<lambda>(p, conn). \<not> isl conn) regs)"
    by (metis map_append takeWhile_dropWhile_id)
  with assms(2) have d: "distinct (map fst (map ?locals ?ok))"
    by (simp add: comp_def case_prod_unfold)
  have l: "\<forall>(p, ns)\<in>set (map ?locals ?ok). CHR ''_'' \<notin> set p \<and> distinct ns"
  proof -
    have "CHR ''_'' \<notin> set p \<and>
          distinct (case conn of Inl e \<Rightarrow> [] | Inr (tr, cl) \<Rightarrow> map name (client_listTools cl))"
      if "(p, conn) \<in> set ?ok" for p conn
    proof -
      from that have "(p, conn) \<in> set regs"
        by (auto dest: set_takeWhileD)
      with assms(3) have "CHR ''_'' \<notin> set p \<and>
           (case conn of
              Inl e \<Rightarrow> True
            | Inr (tr, cl) \<Rightarrow> distinct (map name (client_listTools cl)))"
        by blast
      then show ?thesis
        by (cases conn) auto
    qed
    then show ?thesis
      by auto
  qed
  have "concat (map ?f ?ok) =
        concat (map (\<lambda>(p, ns). map (\<lambda>n. p @ CHR ''_'' # n) ns) (map ?locals ?ok))"
    by (simp add: comp_def case_prod_unfold split: sum.splits cong: map_cong)
       (rule arg_cong [where f = concat], rule map_cong, auto split: sum.splits)
  with distinct_prefixed [OF d l] names show ?thesis
    by simp
qed

theorem prefixed_names_distinct_witness:
  "map name (allTools (snd (connectAll
       [(''filesystem'', demoConn [''search'', ''read_file'']), (''github'', demoConn [''search''])]
       (newMCPClient (scriptedModel []))))) =
     [''filesystem_search'', ''filesystem_read_file'', ''github_search''] \<and>
   distinct (map name (allTools (snd (connectAll
       [(''filesystem'', demoConn [''search'', ''read_file'']), (''github'', demoConn [''search''])]
       (newMCPClient (scriptedModel []))))))"
proof -
  let ?regs = "[(''filesystem'', demoConn [''search'', ''read_file'']),
                (''github'', demoConn [''search''])]"
  let ?new = "newMCPClient (scriptedModel []) :: demo_world MCPClient"
  have h1: "allTools ?new = []"
    by (simp add: newMCPClient_def)
  have h2: "distinct (map fst ?regs)"
    by simp
  have h3: "\<forall>(p, conn)\<in>set ?regs.
           CHR ''_'' \<notin> set p \<and>
           (case conn of
              Inl e \<Rightarrow> True
            | Inr (tr, cl) \<Rightarrow> distinct (map name (client_listTools cl)))"
    by (simp add: demoConn_def demoClient_def mkTool_def)
  have c: "concat (map (\<lambda>(p, conn). case conn of
                          Inl e \<Rightarrow> []
                        | Inr (tr, cl) \<Rightarrow> map (\<lambda>t. p @ ''_'' @ name t) (client_listTools cl))
                     (takeWhile (\<lambda>(p, conn). \<not> isl conn) ?regs)) =
           [''filesystem_search'', ''filesystem_read_file'', ''github_search'']"
    by (simp add: demoConn_def demoClient_def mkTool_def)
  from prefixed_names_distinct [OF h1 h2 h3] c show ?thesis
    by simp
qed

subsection \<open>Resolving a bare name\<close>

text \<open>
  What the suffix strategy does achieve: a bare name without separator resolves to the
  prefixed entry when no other entry has that final segment.
\<close>

lemma final_segment_whole: "CHR ''_'' \<notin> set n \<Longrightarrow> final_segment n = n"
proof -
  assume "CHR ''_'' \<notin> set n"
  then have "takeWhile (\<lambda>x. x \<noteq> CHR ''_'') (rev n) = rev n"
    by auto
  then show ?thesis
    by (simp only: final_segment_def rev_rev_ident)
qed

lemma final_segment_prefixed:
  "CHR ''_'' \<notin> set n \<Longrightarrow> final_segment (p @ ''_'' @ n) = n"
proof -
  assume n: "CHR ''_'' \<notin> set n"
  have "takeWhile (\<lambda>x. x \<noteq> CHR ''_'') (rev n @ CHR ''_'' # rev p) =
          rev n @ takeWhile (\<lambda>x. x \<noteq> CHR ''_'') (CHR ''_'' # rev p)"
    using n by (intro takeWhile_append2) auto
  then have "takeWhile (\<lambda>x. x \<noteq> CHR ''_'') (rev (p @ ''_'' @ n)) = rev n"
    by simp
  then show ?thesis
    by (simp only: final_segment_def rev_rev_ident)
qed

lemma find_first_holds: "x \<in> set xs \<Longrightarrow> P x \<Longrightarrow> \<exists>y. find P xs = Some y"
  by (cases "find P xs") (auto simp: find_None_iff)

lemma findToolByName_bare_name:
  assumes "t \<in> set (allTools this)" and "name t = p @ ''_'' @ n" and "CHR ''_'' \<notin> set n"
    and "\<forall>u\<in>set (allTools this). final_segment (name u) = n \<longrightarrow> name u = name t"
  shows "find (exactPred n) (allTools this) = None \<and>
         map_option name (find (suffixPred n) (allTools this)) = Some (p @ ''_'' @ n) \<and>
         findToolByName this n = Some (p @ ''_'' @ n)"
proof -
  have seg: "suffixPred n u \<longleftrightarrow> final_segment (name u) = n" for u
    by (simp add: suffixPred_def final_segment_split)
  have no_exact: "find (exactPred n) (allTools this) = None"
  proof (rule ccontr)
    assume "find (exactPred n) (allTools this) \<noteq> None"
    then obtain u where "find (exactPred n) (allTools this) = Some u" by auto
    from find_Some_holds [OF this] have u: "u \<in> set (allTools this)" "name u = n"
      by (simp_all add: exactPred_def)
    from assms(3) u(2) have "final_segment (name u) = n"
      by (simp add: final_segment_whole)
    with assms(4) u have "name u = name t" by blast
    with u(2) assms(2) show False by (auto dest: arg_cong [where f = length])
  qed
  from assms(2) final_segment_prefixed [OF assms(3), of p] have "suffixPred n t"
    by (simp only: seg)
  from find_first_holds [of t "allTools this" "suffixPred n", OF assms(1) this] obtain u where
    f: "find (suffixPred n) (allTools this) = Some u" by auto
  from find_Some_holds [OF f] assms(4) have "name u = name t"
    by (auto simp: seg)
  with f assms(2) have suff: "map_option name (find (suffixPred n) (allTools this)) = Some (p @ ''_'' @ n)"
    by simp
  with no_exact f show ?thesis
    by (auto simp: findToolByName_def)
qed

text \<open>
  C2. Registering in multi-provider mode does produce the names \<open>providerId_localName\<close>,
  but a bare local name is not resolved by the suffix strategy when it holds the
  separator, as the tools of the two providers of \<open>main\<close> do: the suffix predicate
  compares the text after the last separator, not the name without its prefix. In the
  example catalog no entry passes the suffix strategy for \<open>read_file\<close>, a local name
  that only \<open>filesystem\<close> has, and the flexible strategy then answers with
  \<open>filesystem_write_file\<close>, the first entry whose final segment \<open>file\<close> occurs in the
  request.
\<close>

theorem bare_name_resolves_to_other_tool:
  "map name (allTools (demoMulti [])) =
     [''filesystem_write_file'', ''filesystem_read_file'', ''github_create_repository''] \<and>
   find (suffixPred ''read_file'') (allTools (demoMulti [])) = None \<and>
   find (suffixPred ''write_file'') (allTools (demoMulti [])) = None \<and>
   findToolByName (demoMulti []) ''read_file'' = Some ''filesystem_write_file''"
  by code_simp

subsection \<open>Requests and outcomes in the history\<close>

text \<open>
  C1. A request whose name does not resolve is not recorded: \<open>findToolByName\<close> runs
  before the \<open>tool_use\<close> turn is pushed, and the not-found branch pushes the error
  outcome and continues without pushing the request. The history of the example
  query holds a \<open>tool_result\<close> turn for \<open>tu1\<close> and no \<open>tool_use\<close> turn for it, so the
  pairing of requests and outcomes is broken; a request that resolves is recorded
  before its outcome.
\<close>

theorem unresolved_request_is_not_recorded:
  "conversationHistory
     (fst (snd (processQuery ''go''
        (demoMulti [Inr [ToolUse ''tu1'' ''delete_universe'' ''{}''], Inr [Text ''done'']])
        (0, [])))) =
     [\<lparr>role = User, content = Str ''go''\<rparr>,
      \<lparr>role = User,
       content = ToolResultParam ''tu1'' ''Error: Tool delete_universe not found'' True\<rparr>,
      \<lparr>role = Assistant, content = Str ''done''\<rparr>] \<and>
   \<not> paired []
     (conversationHistory
        (fst (snd (processQuery ''go''
           (demoMulti [Inr [ToolUse ''tu1'' ''delete_universe'' ''{}''], Inr [Text ''done'']])
           (0, []))))) \<and>
   paired []
     (conversationHistory
        (fst (snd (processQuery ''go''
           (demoMulti [Inr [ToolUse ''tu1'' ''create_repository'' ''{}''], Inr [Text ''done'']])
           (0, [])))))"
  by code_simp

end
